theory Spec2Isabelle
  imports Complex_Main "HOL-Library.Word" "HOL-Library.AList"
begin

unbundle bit_operations_syntax

section \<open>Pieces and boards (js/chess-pieces.js)\<close>

text \<open>
  A \<open>ChessPiece\<close> object carries its type, its colour, its own coordinates and the
  \<open>hasMoved\<close> flag. The \<open>symbol\<close> field is a glyph derived from colour and type and
  is only read by the user interface; it is left out.
  Rows and columns are JavaScript numbers that only ever hold integers here.
\<close>

datatype color = WHITE | BLACK

datatype ptype = PAWN | KNIGHT | BISHOP | ROOK | QUEEN | KING

record piece =
  ptype :: ptype
  color :: color
  row :: int
  col :: int
  hasMoved :: bool

type_synonym square = "int \<times> int"

text \<open>
  The 8x8 array \<open>board[row][col]\<close>, holding a piece or \<open>null\<close>. It is modelled as a
  map from squares; every index the code computes on a well-formed state lies on the
  board (see \<open>wf_game\<close> below), so the behaviour of JavaScript arrays outside their
  bounds is never reached there.
\<close>

type_synonym board = "square \<Rightarrow> piece option"

definition opposite :: "color \<Rightarrow> color" where
  "opposite c = (if c = WHITE then BLACK else WHITE)"

definition idx8 :: "int list" where
  "idx8 = [0, 1, 2, 3, 4, 5, 6, 7]"

text \<open>The squares in the order of the nested loops \<open>for row ... for col ...\<close>.\<close>

definition squares :: "square list" where
  "squares = concat (map (\<lambda>r. map (\<lambda>c. (r, c)) idx8) idx8)"

definition inBoard :: "int \<Rightarrow> int \<Rightarrow> bool" where
  "inBoard r c \<longleftrightarrow> 0 \<le> r \<and> r < 8 \<and> 0 \<le> c \<and> c < 8"

text \<open>\<open>ChessPiece.moveTo\<close>.\<close>

definition moveTo :: "piece \<Rightarrow> int \<Rightarrow> int \<Rightarrow> piece" where
  "moveTo p newRow newCol = p\<lparr>row := newRow, col := newCol, hasMoved := True\<rparr>"

text \<open>\<open>ChessPiece.getPawnMoves\<close>: forward move, double move, diagonal captures, en passant.\<close>

definition pawnCapture :: "board \<Rightarrow> piece \<Rightarrow> int \<Rightarrow> int \<Rightarrow> square list" where
  "pawnCapture b p newRow colOffset =
     (let newCol = col p + colOffset in
      if newCol \<ge> 0 \<and> newCol < 8 \<and> newRow \<ge> 0 \<and> newRow < 8 then
        (case b (newRow, newCol) of
           Some targetPiece \<Rightarrow> if color targetPiece \<noteq> color p then [(newRow, newCol)] else []
         | None \<Rightarrow> [])
      else [])"

definition getPawnMoves :: "board \<Rightarrow> piece \<Rightarrow> square option \<Rightarrow> square list" where
  "getPawnMoves b p enPassantTarget =
     (let direction = (if color p = WHITE then - 1 else 1);
          startRow = (if color p = WHITE then 6 else 1);
          enPassantRow = (if color p = WHITE then 3 else 4);
          newRow = row p + direction;
          forward =
            (if newRow \<ge> 0 \<and> newRow < 8 \<and> b (newRow, col p) = None then
               (newRow, col p) #
               (if row p = startRow \<and> b (newRow + direction, col p) = None
                then [(newRow + direction, col p)] else [])
             else []);
          captures = pawnCapture b p newRow (- 1) @ pawnCapture b p newRow 1;
          enPassant =
            (case enPassantTarget of
               None \<Rightarrow> []
             | Some (targetRow, targetCol) \<Rightarrow>
                 if row p = enPassantRow \<and> \<bar>targetCol - col p\<bar> = 1 \<and>
                    targetRow = row p + direction
                 then [(targetRow, targetCol)] else [])
      in forward @ captures @ enPassant)"

text \<open>
  The inner loop of \<open>getRookMoves\<close> and \<open>getBishopMoves\<close>:
  \<open>for (let i = 1; i < 8; i++)\<close> along one direction, left by \<open>break\<close> at the edge of
  the board or at the first occupied square.
\<close>

function slide :: "board \<Rightarrow> piece \<Rightarrow> int \<Rightarrow> int \<Rightarrow> int \<Rightarrow> square list" where
  "slide b p rowDir colDir i =
     (if i < 8 then
        (let newRow = row p + rowDir * i; newCol = col p + colDir * i in
         if newRow < 0 \<or> newRow \<ge> 8 \<or> newCol < 0 \<or> newCol \<ge> 8 then []
         else (case b (newRow, newCol) of
                 None \<Rightarrow> (newRow, newCol) # slide b p rowDir colDir (i + 1)
               | Some targetPiece \<Rightarrow>
                   if color targetPiece \<noteq> color p then [(newRow, newCol)] else []))
      else [])"
  by pat_completeness auto
termination
  by (relation "measure (\<lambda>(b, p, rowDir, colDir, i). nat (8 - i))") auto

declare slide.simps [simp del]

definition getRookMoves :: "board \<Rightarrow> piece \<Rightarrow> square list" where
  "getRookMoves b p =
     concat (map (\<lambda>(rowDir, colDir). slide b p rowDir colDir 1)
                 [(0, 1), (0, - 1), (1, 0), (- 1, 0)])"

definition getBishopMoves :: "board \<Rightarrow> piece \<Rightarrow> square list" where
  "getBishopMoves b p =
     concat (map (\<lambda>(rowDir, colDir). slide b p rowDir colDir 1)
                 [(1, 1), (1, - 1), (- 1, 1), (- 1, - 1)])"

definition getQueenMoves :: "board \<Rightarrow> piece \<Rightarrow> square list" where
  "getQueenMoves b p = getRookMoves b p @ getBishopMoves b p"

text \<open>One step of the offset loops of \<open>getKnightMoves\<close> and \<open>getKingMoves\<close>.\<close>

definition stepTo :: "board \<Rightarrow> piece \<Rightarrow> int \<times> int \<Rightarrow> square list" where
  "stepTo b p off =
     (let newRow = row p + fst off; newCol = col p + snd off in
      if newRow \<ge> 0 \<and> newRow < 8 \<and> newCol \<ge> 0 \<and> newCol < 8 then
        (case b (newRow, newCol) of
           None \<Rightarrow> [(newRow, newCol)]
         | Some targetPiece \<Rightarrow>
             if color targetPiece \<noteq> color p then [(newRow, newCol)] else [])
      else [])"

definition getKnightMoves :: "board \<Rightarrow> piece \<Rightarrow> square list" where
  "getKnightMoves b p =
     concat (map (stepTo b p)
       [(- 2, - 1), (- 2, 1), (- 1, - 2), (- 1, 2), (1, - 2), (1, 2), (2, - 1), (2, 1)])"

definition getKingMoves :: "board \<Rightarrow> piece \<Rightarrow> bool \<Rightarrow> bool \<Rightarrow> square list" where
  "getKingMoves b p canCastleKingSide canCastleQueenSide =
     concat (map (stepTo b p)
       [(- 1, - 1), (- 1, 0), (- 1, 1), (0, - 1), (0, 1), (1, - 1), (1, 0), (1, 1)])
     @ (if \<not> hasMoved p \<and> col p = 4 then
          (if canCastleKingSide then [(row p, 6)] else []) @
          (if canCastleQueenSide then [(row p, 2)] else [])
        else [])"

text \<open>The context bundle handed to \<open>getPossibleMoves\<close>.\<close>

record gameContext =
  ctxEnPassantTarget :: "square option"
  canCastleKingSide :: bool
  canCastleQueenSide :: bool

definition getPossibleMoves :: "board \<Rightarrow> piece \<Rightarrow> gameContext \<Rightarrow> square list" where
  "getPossibleMoves b p ctx =
     (case ptype p of
        PAWN \<Rightarrow> getPawnMoves b p (ctxEnPassantTarget ctx)
      | ROOK \<Rightarrow> getRookMoves b p
      | KNIGHT \<Rightarrow> getKnightMoves b p
      | BISHOP \<Rightarrow> getBishopMoves b p
      | QUEEN \<Rightarrow> getQueenMoves b p
      | KING \<Rightarrow> getKingMoves b p (canCastleKingSide ctx) (canCastleQueenSide ctx))"

section \<open>The rules engine (js/chess-logic.js)\<close>

datatype status = Playing | Check | Checkmate | Stalemate | Draw

record moveRecord =
  mvNotation :: string
  mvFrom :: square
  mvTo :: square
  mvPiece :: ptype
  mvCaptured :: "ptype option"

record lastMoveRecord =
  lmFrom :: square
  lmTo :: square
  lmPiece :: ptype

record game =
  board :: board
  currentPlayer :: color
  gameState :: status
  moveHistory :: "moveRecord list"
  capturedPieces :: "color \<Rightarrow> piece list"
  lastMove :: "lastMoveRecord option"
  kingPositions :: "color \<Rightarrow> square"
  enPassantTarget :: "square option"
  halfMoveClock :: int
  fullMoveNumber :: int

text \<open>\<open>initializeBoard\<close> and the constructor of \<open>ChessGame\<close> (also \<open>reset\<close>).\<close>

definition pieceOrder :: "ptype list" where
  "pieceOrder = [ROOK, KNIGHT, BISHOP, QUEEN, KING, BISHOP, KNIGHT, ROOK]"

definition newPiece :: "ptype \<Rightarrow> color \<Rightarrow> int \<Rightarrow> int \<Rightarrow> piece" where
  "newPiece t c r k = \<lparr>ptype = t, color = c, row = r, col = k, hasMoved = False\<rparr>"

definition initializeBoard :: board where
  "initializeBoard = (\<lambda>(r, c).
     if 0 \<le> c \<and> c < 8 then
       (if r = 1 then Some (newPiece PAWN BLACK 1 c)
        else if r = 6 then Some (newPiece PAWN WHITE 6 c)
        else if r = 0 then Some (newPiece (pieceOrder ! nat c) BLACK 0 c)
        else if r = 7 then Some (newPiece (pieceOrder ! nat c) WHITE 7 c)
        else None)
     else None)"

definition newGame :: game where
  "newGame =
     \<lparr>board = initializeBoard, currentPlayer = WHITE, gameState = Playing,
      moveHistory = [], capturedPieces = (\<lambda>c. []), lastMove = None,
      kingPositions = (\<lambda>c. if c = WHITE then (7, 4) else (0, 4)),
      enPassantTarget = None, halfMoveClock = 0, fullMoveNumber = 1\<rparr>"

definition getPieceAt :: "game \<Rightarrow> int \<Rightarrow> int \<Rightarrow> piece option" where
  "getPieceAt g r c =
     (if r < 0 \<or> r \<ge> 8 \<or> c < 0 \<or> c \<ge> 8 then None else board g (r, c))"

text \<open>
  \<open>isSquareUnderAttack\<close>: some piece of the attacking colour has the square among its
  possible moves, castling moves excluded.
\<close>

definition attackContext :: "game \<Rightarrow> gameContext" where
  "attackContext g =
     \<lparr>ctxEnPassantTarget = enPassantTarget g,
      canCastleKingSide = False, canCastleQueenSide = False\<rparr>"

definition isSquareUnderAttack :: "game \<Rightarrow> int \<Rightarrow> int \<Rightarrow> color \<Rightarrow> bool" where
  "isSquareUnderAttack g r c attackingColor =
     list_ex (\<lambda>sq. case board g sq of
                None \<Rightarrow> False
              | Some p \<Rightarrow> color p = attackingColor \<and>
                  list_ex (\<lambda>m. m = (r, c)) (getPossibleMoves (board g) p (attackContext g)))
        squares"

definition isInCheck :: "game \<Rightarrow> color \<Rightarrow> bool" where
  "isInCheck g c =
     (let kingPos = kingPositions g c in
      isSquareUnderAttack g (fst kingPos) (snd kingPos) (opposite c))"

definition isKind :: "piece option \<Rightarrow> ptype \<Rightarrow> bool" where
  "isKind po t = (case po of None \<Rightarrow> False | Some p \<Rightarrow> ptype p = t \<and> \<not> hasMoved p)"

text \<open>\<open>canCastle\<close>.\<close>

definition canCastle :: "game \<Rightarrow> color \<Rightarrow> bool \<Rightarrow> bool" where
  "canCastle g c kingSide =
     (let r = (if c = WHITE then 7 else 0);
          king = getPieceAt g r 4;
          rook = getPieceAt g r (if kingSide then 7 else 0)
      in if \<not> isKind king KING then False
         else if \<not> isKind rook ROOK then False
         else if isInCheck g c then False
         else if kingSide \<and> (getPieceAt g r 5 \<noteq> None \<or> getPieceAt g r 6 \<noteq> None) then False
         else if \<not> kingSide \<and>
                 (getPieceAt g r 1 \<noteq> None \<or> getPieceAt g r 2 \<noteq> None \<or> getPieceAt g r 3 \<noteq> None)
              then False
         else if kingSide \<and>
                 (isSquareUnderAttack g r 5 (opposite c) \<or> isSquareUnderAttack g r 6 (opposite c))
              then False
         else if \<not> kingSide \<and>
                 (isSquareUnderAttack g r 3 (opposite c) \<or> isSquareUnderAttack g r 2 (opposite c))
              then False
         else True)"

definition moveContext :: "game \<Rightarrow> piece \<Rightarrow> gameContext" where
  "moveContext g p =
     \<lparr>ctxEnPassantTarget = enPassantTarget g,
      canCastleKingSide = (if ptype p = KING then canCastle g (color p) True else False),
      canCastleQueenSide = (if ptype p = KING then canCastle g (color p) False else False)\<rparr>"


text \<open>
  \<open>isLegalMove\<close> tests a move by making it on the live state, asking \<open>isInCheck\<close>, and
  undoing it. The model performs the same writes in the same order and returns the
  state they leave behind together with the answer, so that the claim that the state
  is restored is a theorem rather than an assumption. The moving piece is one object:
  its \<open>row\<close> and \<open>col\<close> are overwritten while it stands on the target square and
  written back afterwards.
\<close>

definition isLegalMove :: "game \<Rightarrow> int \<Rightarrow> int \<Rightarrow> int \<Rightarrow> int \<Rightarrow> bool \<times> game" where
  "isLegalMove g fromRow fromCol toRow toCol =
     (case getPieceAt g fromRow fromCol of
        None \<Rightarrow> (False, g)
      | Some piece \<Rightarrow>
          if color piece \<noteq> currentPlayer g then (False, g)
          else if \<not> list_ex (\<lambda>m. m = (toRow, toCol))
                      (getPossibleMoves (board g) piece (moveContext g piece))
          then (False, g)
          else if ptype piece = KING \<and> \<bar>toCol - fromCol\<bar> = 2 then (True, g)
          else
            (let originalKingPositions = kingPositions g;
                 capturedPiece = board g (toRow, toCol);
                 originalRow = row piece;
                 originalCol = col piece;
                 isEnPassant = (ptype piece = PAWN \<and> enPassantTarget g = Some (toRow, toCol));
                 captureRow = (if color piece = WHITE then toRow + 1 else toRow - 1);
                 enPassantCapturedPawn =
                   (if isEnPassant then board g (captureRow, toCol) else None);
                 g1 = (if isEnPassant
                       then g\<lparr>board := (board g)((captureRow, toCol) := None)\<rparr> else g);
                 moved = piece\<lparr>row := toRow, col := toCol\<rparr>;
                 g2 = g1\<lparr>board := (board g1)((toRow, toCol) := Some moved,
                                                (fromRow, fromCol) := None)\<rparr>;
                 g3 = (if ptype piece = KING
                       then g2\<lparr>kingPositions :=
                                 (kingPositions g2)(color piece := (toRow, toCol))\<rparr>
                       else g2);
                 isLegal = (\<not> isInCheck g3 (color piece));
                 restored = moved\<lparr>row := originalRow, col := originalCol\<rparr>;
                 g4 = g3\<lparr>board := (board g3)((fromRow, fromCol) := Some restored,
                                                (toRow, toCol) := capturedPiece),
                         kingPositions := originalKingPositions\<rparr>;
                 g5 = (case enPassantCapturedPawn of
                         None \<Rightarrow> g4
                       | Some pawn \<Rightarrow>
                           g4\<lparr>board := (board g4)((captureRow, toCol) := Some pawn)\<rparr>)
             in (isLegal, g5)))"

text \<open>\<open>getLegalMoves\<close>: the loop over the possible moves, each tested by \<open>isLegalMove\<close>.\<close>

fun legalFilter :: "game \<Rightarrow> piece \<Rightarrow> square list \<Rightarrow> square list \<times> game" where
  "legalFilter g p [] = ([], g)"
| "legalFilter g p (m # ms) =
     (let (ok, g1) = isLegalMove g (row p) (col p) (fst m) (snd m);
          (rest, g2) = legalFilter g1 p ms
      in (if ok then m # rest else rest, g2))"

definition getLegalMoves :: "game \<Rightarrow> piece option \<Rightarrow> square list \<times> game" where
  "getLegalMoves g po =
     (case po of
        None \<Rightarrow> ([], g)
      | Some p \<Rightarrow> legalFilter g p (getPossibleMoves (board g) p (moveContext g p)))"

text \<open>\<open>hasLegalMoves\<close>: the first piece of the colour with a legal move ends the scan.\<close>

fun hasLegalMovesFrom :: "game \<Rightarrow> color \<Rightarrow> square list \<Rightarrow> bool \<times> game" where
  "hasLegalMovesFrom g c [] = (False, g)"
| "hasLegalMovesFrom g c (sq # sqs) =
     (case getPieceAt g (fst sq) (snd sq) of
        None \<Rightarrow> hasLegalMovesFrom g c sqs
      | Some p \<Rightarrow>
          if color p = c then
            (let (legalMoves, g1) = getLegalMoves g (Some p) in
             if legalMoves \<noteq> [] then (True, g1) else hasLegalMovesFrom g1 c sqs)
          else hasLegalMovesFrom g c sqs)"

definition hasLegalMoves :: "game \<Rightarrow> color \<Rightarrow> bool \<times> game" where
  "hasLegalMoves g c = hasLegalMovesFrom g c squares"

text \<open>\<open>getPieces\<close> and \<open>isInsufficientMaterial\<close>.\<close>

definition getPieces :: "game \<Rightarrow> color \<Rightarrow> piece list" where
  "getPieces g c =
     concat (map (\<lambda>sq. case getPieceAt g (fst sq) (snd sq) of
                          None \<Rightarrow> []
                        | Some p \<Rightarrow> if color p = c then [p] else []) squares)"

definition loneMinor :: "ptype list \<Rightarrow> ptype list \<Rightarrow> bool" where
  "loneMinor mine other \<longleftrightarrow>
     length mine = 2 \<and> length other = 1 \<and>
     (let nonKingPiece = find (\<lambda>t. t \<noteq> KING) mine in
      nonKingPiece = Some BISHOP \<or> nonKingPiece = Some KNIGHT)"

definition isInsufficientMaterial :: "game \<Rightarrow> bool" where
  "isInsufficientMaterial g =
     (let white = map ptype (getPieces g WHITE); black = map ptype (getPieces g BLACK) in
      if length white = 1 \<and> length black = 1 then True
      else if loneMinor white black then True
      else if loneMinor black white then True
      else False)"

text \<open>
  \<open>updateGameState\<close>: the four-way classification, then the draw test, which
  overwrites whatever the classification stored.
\<close>

definition updateGameState :: "game \<Rightarrow> game" where
  "updateGameState g =
     (let inCheck = isInCheck g (currentPlayer g);
          (hasMoves, g1) = hasLegalMoves g (currentPlayer g);
          g2 = g1\<lparr>gameState :=
                    (if inCheck \<and> \<not> hasMoves then Checkmate
                     else if \<not> inCheck \<and> \<not> hasMoves then Stalemate
                     else if inCheck then Check
                     else Playing)\<rparr>
      in if halfMoveClock g2 \<ge> 100 \<or> isInsufficientMaterial g2
         then g2\<lparr>gameState := Draw\<rparr> else g2)"

text \<open>
  \<open>getMoveNotation\<close>. \<open>String.fromCharCode(97 + col) + (8 - row)\<close> is a file letter and
  a rank digit for a square of the board.
\<close>

definition squareName :: "int \<Rightarrow> int \<Rightarrow> string" where
  "squareName r c = [''abcdefgh'' ! nat c, ''87654321'' ! nat r]"

definition typeInitial :: "ptype \<Rightarrow> char" where
  "typeInitial t =
     (case t of PAWN \<Rightarrow> CHR ''P'' | KNIGHT \<Rightarrow> CHR ''K'' | BISHOP \<Rightarrow> CHR ''B''
      | ROOK \<Rightarrow> CHR ''R'' | QUEEN \<Rightarrow> CHR ''Q'' | KING \<Rightarrow> CHR ''K'')"

definition getMoveNotation ::
  "piece \<Rightarrow> int \<Rightarrow> int \<Rightarrow> int \<Rightarrow> int \<Rightarrow> piece option \<Rightarrow> string" where
  "getMoveNotation piece fromRow fromCol toRow toCol capturedPiece =
     (let fromSquare = squareName fromRow fromCol;
          toSquare = squareName toRow toCol
      in if ptype piece = KING \<and> \<bar>toCol - fromCol\<bar> = 2
         then (if toCol > fromCol then ''O-O'' else ''O-O-O'')
         else (if ptype piece \<noteq> PAWN then [typeInitial (ptype piece)] else []) @
              (case capturedPiece of
                 None \<Rightarrow> []
               | Some cp \<Rightarrow> (if ptype piece = PAWN then take 1 fromSquare else []) @ ''x'') @
              toSquare)"

text \<open>\<open>handleCastling\<close>: the rook follows the king.\<close>

definition handleCastling :: "game \<Rightarrow> int \<Rightarrow> int \<Rightarrow> int \<Rightarrow> int \<Rightarrow> game" where
  "handleCastling g fromRow fromCol toRow toCol =
     (let isKingSide = (toCol > fromCol);
          rookFromCol = (if isKingSide then 7 else 0);
          rookToCol = (if isKingSide then 5 else 3)
      in case getPieceAt g fromRow rookFromCol of
           None \<Rightarrow> g
         | Some rook \<Rightarrow>
             g\<lparr>board := (board g)((fromRow, rookToCol) := Some (moveTo rook fromRow rookToCol),
                                    (fromRow, rookFromCol) := None)\<rparr>)"

text \<open>
  \<open>makeMove\<close>, block by block as the method is written. Each block is a function
  from the state before it to the state after it.
\<close>

text \<open>"Handle en passant capture": the captured piece and the state without it.\<close>

definition captureEnPassant :: "game \<Rightarrow> piece \<Rightarrow> int \<Rightarrow> int \<Rightarrow> piece option \<times> game" where
  "captureEnPassant g piece toRow toCol =
     (let capturedPiece = getPieceAt g toRow toCol in
      if ptype piece = PAWN \<and> capturedPiece = None \<and> enPassantTarget g = Some (toRow, toCol)
      then (let captureRow = (if color piece = WHITE then toRow + 1 else toRow - 1) in
            (board g (captureRow, toCol), g\<lparr>board := (board g)((captureRow, toCol) := None)\<rparr>))
      else (capturedPiece, g))"

text \<open>"Handle captures": the captured-piece lists and the half-move clock.\<close>

definition handleCaptures :: "game \<Rightarrow> piece \<Rightarrow> piece option \<Rightarrow> game" where
  "handleCaptures g piece capturedPiece =
     (case capturedPiece of
        Some cp \<Rightarrow>
          g\<lparr>capturedPieces := (capturedPieces g)(color cp := capturedPieces g (color cp) @ [cp]),
            halfMoveClock := 0\<rparr>
      | None \<Rightarrow>
          if ptype piece = PAWN then g\<lparr>halfMoveClock := 0\<rparr>
          else g\<lparr>halfMoveClock := halfMoveClock g + 1\<rparr>)"

text \<open>"Move the piece" and "Update king position"; \<open>moved\<close> is the piece after \<open>moveTo\<close>.\<close>

definition movePiece :: "game \<Rightarrow> piece \<Rightarrow> int \<Rightarrow> int \<Rightarrow> int \<Rightarrow> int \<Rightarrow> game" where
  "movePiece g moved fromRow fromCol toRow toCol =
     g\<lparr>board := (board g)((toRow, toCol) := Some moved, (fromRow, fromCol) := None)\<rparr>"

definition updateKingPosition :: "game \<Rightarrow> piece \<Rightarrow> int \<Rightarrow> int \<Rightarrow> game" where
  "updateKingPosition g moved toRow toCol =
     (if ptype moved = KING
      then g\<lparr>kingPositions := (kingPositions g)(color moved := (toRow, toCol))\<rparr>
      else g)"

text \<open>
  "Handle pawn promotion": the type of the piece object is overwritten; the object
  stands on the target square, so the board shows the new type.
\<close>

definition promotePiece :: "piece \<Rightarrow> int \<Rightarrow> ptype \<Rightarrow> piece" where
  "promotePiece moved toRow promotionPiece =
     (if ptype moved = PAWN \<and> (toRow = 0 \<or> toRow = 7)
      then moved\<lparr>ptype := promotionPiece\<rparr> else moved)"

definition handlePromotion :: "game \<Rightarrow> piece \<Rightarrow> int \<Rightarrow> int \<Rightarrow> game" where
  "handlePromotion g promoted toRow toCol =
     g\<lparr>board := (board g)((toRow, toCol) := Some promoted)\<rparr>"

text \<open>"Handle castling".\<close>

definition castleIfKing :: "game \<Rightarrow> piece \<Rightarrow> int \<Rightarrow> int \<Rightarrow> int \<Rightarrow> int \<Rightarrow> game" where
  "castleIfKing g promoted fromRow fromCol toRow toCol =
     (if ptype promoted = KING \<and> \<bar>toCol - fromCol\<bar> = 2
      then handleCastling g fromRow fromCol toRow toCol else g)"

text \<open>"Update en passant target".\<close>

definition updateEnPassantTarget :: "game \<Rightarrow> piece \<Rightarrow> int \<Rightarrow> int \<Rightarrow> int \<Rightarrow> game" where
  "updateEnPassantTarget g promoted fromRow fromCol toRow =
     g\<lparr>enPassantTarget :=
         (if ptype promoted = PAWN \<and> \<bar>toRow - fromRow\<bar> = 2
          then Some (fromRow + (toRow - fromRow) div 2, fromCol)
          else None)\<rparr>"

text \<open>"Record the move".\<close>

definition recordMove ::
  "game \<Rightarrow> piece \<Rightarrow> int \<Rightarrow> int \<Rightarrow> int \<Rightarrow> int \<Rightarrow> string \<Rightarrow> piece option \<Rightarrow> game" where
  "recordMove g promoted fromRow fromCol toRow toCol moveNotation capturedPiece =
     g\<lparr>lastMove :=
         Some \<lparr>lmFrom = (fromRow, fromCol), lmTo = (toRow, toCol), lmPiece = ptype promoted\<rparr>,
       moveHistory := moveHistory g @
         [\<lparr>mvNotation = moveNotation, mvFrom = (fromRow, fromCol), mvTo = (toRow, toCol),
           mvPiece = ptype promoted, mvCaptured = map_option ptype capturedPiece\<rparr>]\<rparr>"

text \<open>"Switch players".\<close>

definition switchPlayers :: "game \<Rightarrow> game" where
  "switchPlayers g =
     (let g1 = g\<lparr>currentPlayer := opposite (currentPlayer g)\<rparr> in
      if currentPlayer g1 = WHITE then g1\<lparr>fullMoveNumber := fullMoveNumber g1 + 1\<rparr> else g1)"

text \<open>The state a legal move leaves before the status is recomputed.\<close>

definition applyMove :: "game \<Rightarrow> piece \<Rightarrow> int \<Rightarrow> int \<Rightarrow> int \<Rightarrow> int \<Rightarrow> ptype \<Rightarrow> game" where
  "applyMove g0 piece fromRow fromCol toRow toCol promotionPiece =
     (let (capturedPiece, g1) = captureEnPassant g0 piece toRow toCol;
          moveNotation = getMoveNotation piece fromRow fromCol toRow toCol capturedPiece;
          g2 = handleCaptures g1 piece capturedPiece;
          moved = moveTo piece toRow toCol;
          g3 = movePiece g2 moved fromRow fromCol toRow toCol;
          g4 = updateKingPosition g3 moved toRow toCol;
          promoted = promotePiece moved toRow promotionPiece;
          g5 = handlePromotion g4 promoted toRow toCol;
          g6 = castleIfKing g5 promoted fromRow fromCol toRow toCol;
          g7 = updateEnPassantTarget g6 promoted fromRow fromCol toRow;
          g8 = recordMove g7 promoted fromRow fromCol toRow toCol moveNotation capturedPiece
      in switchPlayers g8)"

text \<open>
  \<open>makeMove\<close>: the boolean the method returns and the state it leaves. The legality
  test runs first, on the live state.
\<close>

definition makeMove ::
  "game \<Rightarrow> int \<Rightarrow> int \<Rightarrow> int \<Rightarrow> int \<Rightarrow> ptype \<Rightarrow> bool \<times> game" where
  "makeMove g fromRow fromCol toRow toCol promotionPiece =
     (case getPieceAt g fromRow fromCol of
        None \<Rightarrow> (False, g)
      | Some piece \<Rightarrow>
          (let (legal, g0) = isLegalMove g fromRow fromCol toRow toCol in
           if \<not> legal then (False, g0)
           else (True, updateGameState
                         (applyMove g0 piece fromRow fromCol toRow toCol promotionPiece))))"

text \<open>
  The states the engine is written for: every piece on the board carries the
  coordinates of the square it stands on, and the en-passant target, when set, is a
  square of the board. The constructor establishes this and \<open>makeMove\<close> keeps it.
\<close>

definition wf_game :: "game \<Rightarrow> bool" where
  "wf_game g \<longleftrightarrow>
     list_all (\<lambda>sq. case board g sq of None \<Rightarrow> True | Some p \<Rightarrow> (row p, col p) = sq) squares \<and>
     (case enPassantTarget g of None \<Rightarrow> True | Some t \<Rightarrow> inBoard (fst t) (snd t))"


section \<open>The search engine (js/chess-ai-enhanced.js)\<close>

subsection \<open>Scores\<close>

text \<open>
  Search scores are JavaScript numbers: the integer values of the evaluation, and
  \<open>-Infinity\<close> and \<open>Infinity\<close> as the initial bounds. Negation and the \<open>- 1\<close> and
  \<open>+ 1\<close> of the null windows leave an infinity as it is.
\<close>

datatype score = NegInf | Fin int | PosInf

instantiation score :: linorder
begin

fun less_eq_score :: "score \<Rightarrow> score \<Rightarrow> bool" where
  "less_eq_score NegInf y = True"
| "less_eq_score (Fin a) NegInf = False"
| "less_eq_score (Fin a) (Fin b) = (a \<le> b)"
| "less_eq_score (Fin a) PosInf = True"
| "less_eq_score PosInf PosInf = True"
| "less_eq_score PosInf y = False"

definition less_score :: "score \<Rightarrow> score \<Rightarrow> bool" where
  "less_score x y \<longleftrightarrow> x \<le> y \<and> \<not> y \<le> x"

instance
proof
  fix x y z :: score
  show "(x < y) = (x \<le> y \<and> \<not> y \<le> x)" by (simp add: less_score_def)
  show "x \<le> x" by (cases x) simp_all
  show "x \<le> y \<Longrightarrow> y \<le> z \<Longrightarrow> x \<le> z" by (cases x; cases y; cases z) simp_all
  show "x \<le> y \<Longrightarrow> y \<le> x \<Longrightarrow> x = y" by (cases x; cases y) simp_all
  show "x \<le> y \<or> y \<le> x" by (cases x; cases y) auto
qed

end

fun sneg :: "score \<Rightarrow> score" where
  "sneg NegInf = PosInf"
| "sneg (Fin a) = Fin (- a)"
| "sneg PosInf = NegInf"

fun sadd :: "score \<Rightarrow> int \<Rightarrow> score" where
  "sadd NegInf k = NegInf"
| "sadd (Fin a) k = Fin (a + k)"
| "sadd PosInf k = PosInf"

subsection \<open>Engine state\<close>

text \<open>
  A candidate move. \<open>mScore\<close> is the ordering score that \<open>orderMovesAdvanced\<close> writes
  into the move object; nothing reads it before that, and it is 0 until then. A move
  taken from the opening book has no \<open>captured\<close> entry, and its piece type is that of
  the piece on its origin square, if there is one.
\<close>

record move =
  mFrom :: square
  mTo :: square
  mPiece :: "ptype option"
  mCaptured :: "ptype option"
  mScore :: int

datatype flag = EXACT | LOWERBOUND | UPPERBOUND

record ttEntry =
  ttScore :: score
  ttDepth :: nat
  ttFlag :: flag

text \<open>
  The Zobrist table is filled with \<open>Math.random() * Number.MAX_SAFE_INTEGER | 0\<close>, a
  32-bit integer, when the engine is constructed; it is a parameter here. The
  castling entries of the table are never read by the hash and are left out.
\<close>

record zobrist =
  zPieces :: "color \<Rightarrow> ptype \<Rightarrow> nat \<Rightarrow> 32 word"
  zBlackToMove :: "32 word"
  zEnPassant :: "int \<Rightarrow> 32 word"

text \<open>The tables the recursive search reads and writes.\<close>

record search =
  transpositionTable :: "(32 word \<times> ttEntry) list"
  killerMoves :: "move list list"
  historyTable :: "((square \<times> square) \<times> int) list"
  nodesSearched :: int

text \<open>
  The engine object. The recursive search only reads \<open>maxDepth\<close>, \<open>zobristTable\<close> and
  \<open>pvTable\<close> of it and writes the tables of \<open>search\<close>; the history and principal
  variation tables are keyed by the string \<open>"fromRow,fromCol,toRow,toCol"\<close>, that is by
  the two squares.
\<close>

record ai =
  difficulty :: int
  maxDepth :: nat
  timeLimit :: int
  randomnessFactor :: real
  moveRandomness :: real
  useOpeningBook :: bool
  openingBook :: "(string \<times> string list) list"
  zobristTable :: zobrist
  pvTable :: "(square \<times> square) list"
  moveCount :: int
  startTime :: int
  search :: search

definition initializeOpeningBook :: "(string \<times> string list) list" where
  "initializeOpeningBook =
     [(''e2e4,e7e5,g1f3,b8c6,f1c4'', [''b7b5'', ''d7d6'', ''f7f5'', ''g8f6'']),
      (''e2e4,c7c5'', [''g1f3'', ''d2d4'', ''b1c3'']),
      (''e2e4,e7e6'', [''d2d4'', ''g1f3'']),
      (''d2d4,d7d5,c2c4'', [''e7e6'', ''c7c6'', ''d5c4'']),
      (''d2d4,g8f6,c2c4,g7g6'', [''b1c3'', ''g1f3'']),
      (''e2e4,e7e5,g1f3,b8c6,f1b5'', [''a7a6'', ''g8f6'', ''f7f5'']),
      (''c2c4'', [''e7e5'', ''g8f6'', ''c7c5'', ''e7e6'']),
      (''e2e4,c7c6'', [''d2d4'', ''b1c3'', ''g1f3''])]"

definition getDepthFromDifficulty :: "int \<Rightarrow> nat" where
  "getDepthFromDifficulty d =
     (if d = 1 then 3 else if d = 2 then 4 else if d = 3 then 5
      else if d = 4 then 6 else if d = 5 then 8 else 4)"

definition setDifficultyParameters :: "ai \<Rightarrow> int \<Rightarrow> ai" where
  "setDifficultyParameters a d =
     (if d = 1 then a\<lparr>timeLimit := 1000, randomnessFactor := 25 / 100,
                      moveRandomness := 3 / 10, useOpeningBook := False\<rparr>
      else if d = 2 then a\<lparr>timeLimit := 2000, randomnessFactor := 1 / 10,
                           moveRandomness := 15 / 100, useOpeningBook := True\<rparr>
      else if d = 3 then a\<lparr>timeLimit := 3000, randomnessFactor := 5 / 100,
                           moveRandomness := 8 / 100, useOpeningBook := True\<rparr>
      else if d = 4 then a\<lparr>timeLimit := 5000, randomnessFactor := 2 / 100,
                           moveRandomness := 3 / 100, useOpeningBook := True\<rparr>
      else if d = 5 then a\<lparr>timeLimit := 8000, randomnessFactor := 0,
                           moveRandomness := 0, useOpeningBook := True\<rparr>
      else a\<lparr>timeLimit := 3000, randomnessFactor := 1 / 10,
             moveRandomness := 15 / 100, useOpeningBook := True\<rparr>)"

text \<open>The constructor, for a given outcome of the random filling of the Zobrist table.\<close>

definition newSearch :: search where
  "newSearch =
     \<lparr>transpositionTable = [], killerMoves = replicate 20 [], historyTable = [],
      nodesSearched = 0\<rparr>"

definition newAI :: "int \<Rightarrow> zobrist \<Rightarrow> ai" where
  "newAI d z =
     setDifficultyParameters
       \<lparr>difficulty = d, maxDepth = getDepthFromDifficulty d, timeLimit = 0,
        randomnessFactor = 0, moveRandomness = 0, useOpeningBook = False,
        openingBook = initializeOpeningBook, zobristTable = z, pvTable = [],
        moveCount = 0, startTime = 0, search = newSearch\<rparr> d"

subsection \<open>Hashing, cloning, move lists\<close>

definition getZobristHash :: "zobrist \<Rightarrow> game \<Rightarrow> 32 word" where
  "getZobristHash z g =
     (let h1 = fold (\<lambda>sq h. case getPieceAt g (fst sq) (snd sq) of
                               None \<Rightarrow> h
                             | Some p \<Rightarrow>
                                 h XOR zPieces z (color p) (ptype p) (nat (fst sq * 8 + snd sq)))
                    squares 0;
          h2 = (if currentPlayer g = BLACK then h1 XOR zBlackToMove z else h1)
      in case enPassantTarget g of
           None \<Rightarrow> h2
         | Some t \<Rightarrow> h2 XOR zEnPassant z (snd t))"

text \<open>\<open>ChessPiece.clone\<close>: a new piece with the same fields.\<close>

definition clonePiece :: "piece \<Rightarrow> piece" where
  "clonePiece p = (newPiece (ptype p) (color p) (row p) (col p))\<lparr>hasMoved := hasMoved p\<rparr>"

text \<open>
  \<open>EnhancedChessAI.cloneGame\<close>. The clone starts as \<open>new ChessGame()\<close>, whose board is
  the initial position; the loop writes a copy of every piece of the source onto its
  square and writes nothing where the source has none, so such a square keeps what
  the initial position has there. Move history, captured pieces and last move are
  not copied.
\<close>

definition cloneBoardOnto :: "game \<Rightarrow> board \<Rightarrow> board" where
  "cloneBoardOnto g b0 =
     fold (\<lambda>sq b. case getPieceAt g (fst sq) (snd sq) of
                     None \<Rightarrow> b
                   | Some p \<Rightarrow> b(sq := Some (clonePiece p)))
          squares b0"

definition cloneGameAI :: "game \<Rightarrow> game" where
  "cloneGameAI g =
     newGame\<lparr>board := cloneBoardOnto g (board newGame),
             currentPlayer := currentPlayer g,
             gameState := gameState g,
             kingPositions := kingPositions g,
             enPassantTarget := enPassantTarget g,
             halfMoveClock := halfMoveClock g,
             fullMoveNumber := fullMoveNumber g\<rparr>"

text \<open>
  \<open>getAllPossibleMoves\<close> and \<open>getCaptureMoves\<close>. \<open>getLegalMoves\<close> returns the game as it
  received it (\<open>getLegalMoves_state\<close> below), so only its list is used.
\<close>

definition movesOfPiece :: "game \<Rightarrow> piece \<Rightarrow> move list" where
  "movesOfPiece g piece =
     map (\<lambda>t. \<lparr>mFrom = (row piece, col piece), mTo = t, mPiece = Some (ptype piece),
               mCaptured = map_option ptype (getPieceAt g (fst t) (snd t)), mScore = 0\<rparr>)
         (fst (getLegalMoves g (Some piece)))"

definition getAllPossibleMoves :: "game \<Rightarrow> move list" where
  "getAllPossibleMoves g = concat (map (movesOfPiece g) (getPieces g (currentPlayer g)))"

definition getCaptureMoves :: "game \<Rightarrow> move list" where
  "getCaptureMoves g = filter (\<lambda>m. mCaptured m \<noteq> None) (getAllPossibleMoves g)"

definition pieceValue :: "ptype \<Rightarrow> int" where
  "pieceValue t =
     (case t of PAWN \<Rightarrow> 100 | KNIGHT \<Rightarrow> 320 | BISHOP \<Rightarrow> 330 | ROOK \<Rightarrow> 500
      | QUEEN \<Rightarrow> 900 | KING \<Rightarrow> 20000)"

definition valueOf :: "ptype option \<Rightarrow> int" where
  "valueOf t = (case t of None \<Rightarrow> 0 | Some x \<Rightarrow> pieceValue x)"

text \<open>
  \<open>orderCapturesByMVVLVA\<close>: \<open>Array.prototype.sort\<close> is stable; the comparator orders by
  \<open>capturedValue - attackerValue / 10\<close>, largest first. Every piece value is a multiple
  of ten, so the quotient is an integer.
\<close>

definition orderCapturesByMVVLVA :: "move list \<Rightarrow> move list" where
  "orderCapturesByMVVLVA ms =
     sort_key (\<lambda>m. - (valueOf (mCaptured m) - valueOf (mPiece m) div 10)) ms"

definition movesEqual :: "move \<Rightarrow> move \<Rightarrow> bool" where
  "movesEqual move1 move2 \<longleftrightarrow> mFrom move1 = mFrom move2 \<and> mTo move1 = mTo move2"

text \<open>
  \<open>centerBonus(row, col) = (7 - (|3.5 - row| + |3.5 - col|)) * 10\<close>. For integer
  coordinates this is \<open>(14 - |7 - 2 row| - |7 - 2 col|) * 5\<close>, an integer.
\<close>

definition centerBonus :: "int \<Rightarrow> int \<Rightarrow> int" where
  "centerBonus r c = (14 - \<bar>7 - 2 * r\<bar> - \<bar>7 - 2 * c\<bar>) * 5"

definition moveOrderScore :: "ai \<Rightarrow> search \<Rightarrow> game \<Rightarrow> nat \<Rightarrow> move \<Rightarrow> int" where
  "moveOrderScore cfg s g depth m =
     (let moveKey = (mFrom m, mTo m);
          s1 = (if moveKey \<in> set (pvTable cfg) then 10000 else 0);
          s2 = (case mCaptured m of
                  None \<Rightarrow> s1
                | Some cap \<Rightarrow> s1 + (1000 + pieceValue cap - valueOf (mPiece m) div 10));
          s3 = (if depth < length (killerMoves s) \<and>
                   list_ex (\<lambda>k. movesEqual k m) (killerMoves s ! depth)
                then s2 + 900 else s2);
          s4 = (case map_of (historyTable s) moveKey of
                  None \<Rightarrow> s3
                | Some h \<Rightarrow> if h \<noteq> 0 then s3 + min h 800 else s3);
          toRow = fst (mTo m); toCol = snd (mTo m);
          fromRow = fst (mFrom m); fromCol = snd (mFrom m);
          s5 = s4 + (centerBonus toRow toCol - centerBonus fromRow fromCol);
          s6 = (if mPiece m = Some PAWN
                then s5 + (if currentPlayer g = WHITE then (fromRow - toRow) * 20
                           else (toRow - fromRow) * 20)
                else s5)
      in if mPiece m = Some KING \<and> \<bar>toCol - fromCol\<bar> = 2 then s6 + 300 else s6)"

definition orderMovesAdvanced :: "ai \<Rightarrow> search \<Rightarrow> move list \<Rightarrow> game \<Rightarrow> nat \<Rightarrow> move list" where
  "orderMovesAdvanced cfg s moves g depth =
     sort_key (\<lambda>m. - mScore m)
       (map (\<lambda>m. m\<lparr>mScore := moveOrderScore cfg s g depth m\<rparr>) moves)"

text \<open>The clone of \<open>game\<close> with the move made on it: \<open>gameClone.makeMove(...)\<close>.\<close>

definition tryMove :: "game \<Rightarrow> move \<Rightarrow> bool \<times> game" where
  "tryMove g m =
     makeMove (cloneGameAI g) (fst (mFrom m)) (snd (mFrom m)) (fst (mTo m)) (snd (mTo m)) QUEEN"

subsection \<open>The leaf evaluation\<close>

text \<open>
  \<open>ChessEvaluation.evaluatePositionAdvanced\<close>. The terminal cases are as written. The
  sum of the evaluation terms (material, activity, pawn structure, king safety,
  square control, coordination) is an integer that depends on the game only; it is
  the parameter \<open>terms\<close>, and everything below holds for every such function.
\<close>

definition evaluatePositionAdvanced :: "(game \<Rightarrow> int) \<Rightarrow> game \<Rightarrow> int" where
  "evaluatePositionAdvanced terms g =
     (if gameState g = Checkmate then (if currentPlayer g = BLACK then 30000 else - 30000)
      else if gameState g = Stalemate \<or> gameState g = Draw then 0
      else if currentPlayer g = WHITE then terms g else - terms g)"

subsection \<open>Quiescence search\<close>

text \<open>
  The loop over the capture moves; \<open>rec\<close> is the recursive call one level deeper.
  The result is the returned score and the search tables.
\<close>

fun qLoop ::
  "(search \<Rightarrow> game \<Rightarrow> score \<Rightarrow> score \<Rightarrow> score \<times> search) \<Rightarrow> search \<Rightarrow> game \<Rightarrow> move list \<Rightarrow>
   score \<Rightarrow> score \<Rightarrow> score \<times> search" where
  "qLoop rec s g [] alpha beta = (alpha, s)"
| "qLoop rec s g (m # ms) alpha beta =
     (case tryMove g m of
        (False, gameClone) \<Rightarrow> qLoop rec s g ms alpha beta
      | (True, gameClone) \<Rightarrow>
          (case rec s gameClone (sneg beta) (sneg alpha) of
             (v, s1) \<Rightarrow>
               (let score = sneg v in
                if score \<ge> beta then (beta, s1)
                else qLoop rec s1 g ms (if score > alpha then score else alpha) beta)))"

function quiescenceSearch ::
  "(game \<Rightarrow> int) \<Rightarrow> search \<Rightarrow> game \<Rightarrow> score \<Rightarrow> score \<Rightarrow> nat \<Rightarrow> score \<times> search" where
  "quiescenceSearch terms s g alpha beta depth =
     (let s1 = s\<lparr>nodesSearched := nodesSearched s + 1\<rparr>;
          standPat = Fin (evaluatePositionAdvanced terms g)
      in if standPat \<ge> beta then (beta, s1)
         else if depth > 4 then (standPat, s1)
         else qLoop (\<lambda>s' g' a b. quiescenceSearch terms s' g' a b (depth + 1)) s1 g
                (orderCapturesByMVVLVA (getCaptureMoves g))
                (if alpha < standPat then standPat else alpha) beta)"
  by pat_completeness auto
termination
  by (relation "measure (\<lambda>(terms, s, g, alpha, beta, depth). 5 - depth)") auto

declare quiescenceSearch.simps [simp del]

subsection \<open>Alpha-beta search\<close>

text \<open>The transposition-table probe: return a score, or go on with the window.\<close>

definition probeTable ::
  "ttEntry option \<Rightarrow> nat \<Rightarrow> score \<Rightarrow> score \<Rightarrow> score + (score \<times> score)" where
  "probeTable entry depth alpha beta =
     (case entry of
        None \<Rightarrow> Inr (alpha, beta)
      | Some e \<Rightarrow>
          if ttDepth e \<ge> depth then
            (if ttFlag e = EXACT then Inl (ttScore e)
             else (let alpha1 = (if ttFlag e = LOWERBOUND then max alpha (ttScore e) else alpha);
                       beta1 = (if ttFlag e = UPPERBOUND then min beta (ttScore e) else beta)
                   in if alpha1 \<ge> beta1 then Inl (ttScore e) else Inr (alpha1, beta1)))
          else Inr (alpha, beta))"

text \<open>"Update killer moves" and "Update history heuristic".\<close>

definition recordBestMove :: "search \<Rightarrow> move \<Rightarrow> nat \<Rightarrow> search" where
  "recordBestMove s m depth =
     (let s1 = (if mCaptured m = None \<and> depth < length (killerMoves s)
                then s\<lparr>killerMoves :=
                        (killerMoves s)[depth := take 2 (m # killerMoves s ! depth)]\<rparr>
                else s);
          moveKey = (mFrom m, mTo m);
          old = (case map_of (historyTable s1) moveKey of None \<Rightarrow> 0 | Some h \<Rightarrow> h)
      in s1\<lparr>historyTable :=
              AList.update moveKey (old + int depth * int depth) (historyTable s1)\<rparr>)"

text \<open>
  The move loop of \<open>alphaBeta\<close> with principal variation search; \<open>i\<close> is the index of
  the move in the ordered list and \<open>rec\<close> the search one ply deeper. The result is
  \<open>bestScore\<close>, the bound flag and the tables.
\<close>

fun abLoop ::
  "(search \<Rightarrow> game \<Rightarrow> score \<Rightarrow> score \<Rightarrow> score \<times> search) \<Rightarrow> nat \<Rightarrow> search \<Rightarrow> game \<Rightarrow>
   move list \<Rightarrow> nat \<Rightarrow> score \<Rightarrow> score \<Rightarrow> score \<Rightarrow> flag \<Rightarrow> score \<times> flag \<times> search" where
  "abLoop rec depth s g [] i alpha beta bestScore flg = (bestScore, flg, s)"
| "abLoop rec depth s g (m # ms) i alpha beta bestScore flg =
     (case tryMove g m of
        (False, gameClone) \<Rightarrow> abLoop rec depth s g ms (i + 1) alpha beta bestScore flg
      | (True, gameClone) \<Rightarrow>
          (case (if i = 0 then
                   (case rec s gameClone (sneg beta) (sneg alpha) of (v, s1) \<Rightarrow> (sneg v, s1))
                 else
                   (case rec s gameClone (sadd (sneg alpha) (- 1)) (sneg alpha) of
                      (v, s1) \<Rightarrow>
                        if sneg v > alpha \<and> sneg v < beta
                        then (case rec s1 gameClone (sneg beta) (sneg alpha) of
                                (v2, s2) \<Rightarrow> (sneg v2, s2))
                        else (sneg v, s1))) of
             (score, s1) \<Rightarrow>
               (case (if score > bestScore then
                        (if score > alpha
                         then (score, score, EXACT, recordBestMove s1 m depth)
                         else (score, alpha, flg, s1))
                      else (bestScore, alpha, flg, s1)) of
                  (bestScore1, alpha1, flg1, s2) \<Rightarrow>
                    if alpha1 \<ge> beta then (bestScore1, LOWERBOUND, s2)
                    else abLoop rec depth s2 g ms (i + 1) alpha1 beta bestScore1 flg1)))"

text \<open>
  \<open>alphaBeta\<close>. The parameter \<open>isMaximizing\<close> is handed down negated and read
  nowhere. The depth is a natural number: the calls are made with \<open>depth - 1\<close> when
  \<open>depth\<close> is not 0, and with \<open>depth - 3\<close> when it is at least 3.
\<close>

function alphaBeta ::
  "ai \<Rightarrow> (game \<Rightarrow> int) \<Rightarrow> search \<Rightarrow> game \<Rightarrow> nat \<Rightarrow> score \<Rightarrow> score \<Rightarrow> bool \<Rightarrow> score \<times> search" where
  "alphaBeta cfg terms s g depth alpha beta isMaximizing =
     (let s0 = s\<lparr>nodesSearched := nodesSearched s + 1\<rparr>;
          hash = getZobristHash (zobristTable cfg) g
      in case probeTable (map_of (transpositionTable s0) hash) depth alpha beta of
           Inl v \<Rightarrow> (v, s0)
         | Inr (alpha1, beta1) \<Rightarrow>
             if depth = 0 \<or> gameState g \<noteq> Playing
             then quiescenceSearch terms s0 g alpha1 beta1 0
             else
               (let moves = getAllPossibleMoves g in
                if moves = [] then
                  ((if isInCheck g (currentPlayer g)
                    then Fin (- 30000 + (int (maxDepth cfg) - int depth)) else Fin 0), s0)
                else
                  (case (if depth \<ge> 3 \<and> \<not> isInCheck g (currentPlayer g) then
                           (case alphaBeta cfg terms s0
                                   ((cloneGameAI g)\<lparr>currentPlayer := opposite (currentPlayer g)\<rparr>)
                                   (depth - 3) (sneg beta1) (sadd (sneg beta1) 1)
                                   (\<not> isMaximizing) of
                              (v, s1) \<Rightarrow> (sneg v \<ge> beta1, s1))
                         else (False, s0)) of
                     (True, s1) \<Rightarrow> (beta1, s1)
                   | (False, s1) \<Rightarrow>
                       (case abLoop (\<lambda>s' g' a b. alphaBeta cfg terms s' g' (depth - 1) a b
                                                   (\<not> isMaximizing))
                               depth s1 g (orderMovesAdvanced cfg s1 moves g depth) 0
                               alpha1 beta1 NegInf UPPERBOUND of
                          (bestScore, flg, s2) \<Rightarrow>
                            (bestScore,
                             s2\<lparr>transpositionTable :=
                                  AList.update hash
                                    \<lparr>ttScore = bestScore, ttDepth = depth, ttFlag = flg\<rparr>
                                    (transpositionTable s2)\<rparr>)))))"
  by pat_completeness auto
termination
  by (relation "measure (\<lambda>(cfg, terms, s, g, depth, alpha, beta, isMaximizing). depth)") auto

declare alphaBeta.simps [simp del]

subsection \<open>The root search and iterative deepening\<close>

text \<open>
  \<open>Date.now()\<close> is read from \<open>clock\<close>: reading number \<open>tick\<close> returns \<open>clock tick\<close>.
  \<open>getBestMove\<close> takes reading 0 as \<open>startTime\<close>; the root loop reads the clock once
  after every move it has searched, and \<open>getBestMove\<close> once after every depth.
\<close>

fun rootLoop ::
  "ai \<Rightarrow> (game \<Rightarrow> int) \<Rightarrow> (nat \<Rightarrow> int) \<Rightarrow> nat \<Rightarrow> search \<Rightarrow> game \<Rightarrow> move list \<Rightarrow>
   score \<Rightarrow> score \<Rightarrow> move \<Rightarrow> nat \<Rightarrow> score \<times> move \<times> search \<times> nat" where
  "rootLoop cfg terms clock depth s g [] alpha bestScore bestMove tick =
     (bestScore, bestMove, s, tick)"
| "rootLoop cfg terms clock depth s g (m # ms) alpha bestScore bestMove tick =
     (case tryMove g m of
        (False, gameClone) \<Rightarrow>
          rootLoop cfg terms clock depth s g ms alpha bestScore bestMove tick
      | (True, gameClone) \<Rightarrow>
          (case alphaBeta cfg terms s gameClone (depth - 1) (sneg PosInf) (sneg alpha) False of
             (v, s1) \<Rightarrow>
               (let score = sneg v;
                    bestScore1 = (if score > bestScore then score else bestScore);
                    bestMove1 = (if score > bestScore then m else bestMove);
                    alpha1 = max alpha score
                in if clock tick - startTime cfg > timeLimit cfg
                   then (bestScore1, bestMove1, s1, tick + 1)
                   else rootLoop cfg terms clock depth s1 g ms alpha1 bestScore1 bestMove1
                          (tick + 1))))"

definition alphaBetaRoot ::
  "ai \<Rightarrow> (game \<Rightarrow> int) \<Rightarrow> (nat \<Rightarrow> int) \<Rightarrow> search \<Rightarrow> game \<Rightarrow> nat \<Rightarrow> nat \<Rightarrow>
   score \<times> move option \<times> search \<times> nat" where
  "alphaBetaRoot cfg terms clock s g depth tick =
     (let moves = getAllPossibleMoves g in
      if moves = [] then
        ((if isInCheck g (currentPlayer g) then Fin (- 30000) else Fin 0), None, s, tick)
      else
        (let ordered = orderMovesAdvanced cfg s moves g depth in
         case rootLoop cfg terms clock depth s g ordered NegInf NegInf (hd ordered) tick of
           (bestScore, bestMove, s1, tick1) \<Rightarrow> (bestScore, Some bestMove, s1, tick1)))"

text \<open>
  The loop \<open>for (depth = 1; depth <= maxDepth; depth++)\<close> of \<open>getBestMove\<close>: the time
  test comes before the result of the depth is stored.
\<close>

function deepen ::
  "ai \<Rightarrow> (game \<Rightarrow> int) \<Rightarrow> (nat \<Rightarrow> int) \<Rightarrow> game \<Rightarrow> nat \<Rightarrow> search \<Rightarrow> nat \<Rightarrow>
   move option \<Rightarrow> score \<Rightarrow> move option \<times> search" where
  "deepen cfg terms clock g depth s tick bestMove bestScore =
     (if depth \<le> maxDepth cfg then
        (case alphaBetaRoot cfg terms clock s g depth tick of
           (score, mv, s1, tick1) \<Rightarrow>
             if clock tick1 - startTime cfg > timeLimit cfg then (bestMove, s1)
             else (case mv of
                     Some m \<Rightarrow> deepen cfg terms clock g (depth + 1) s1 (tick1 + 1) (Some m) score
                   | None \<Rightarrow>
                       deepen cfg terms clock g (depth + 1) s1 (tick1 + 1) bestMove bestScore))
      else (bestMove, s))"
  by pat_completeness auto
termination
  by (relation "measure (\<lambda>(cfg, terms, clock, g, depth, s, tick, bestMove, bestScore).
                  maxDepth cfg + 1 - depth)") auto

declare deepen.simps [simp del]

subsection \<open>Opening book and \<open>getBestMove\<close>\<close>

fun joinComma :: "string list \<Rightarrow> string" where
  "joinComma [] = []"
| "joinComma [x] = x"
| "joinComma (x # y # zs) = x @ '','' @ joinComma (y # zs)"

text \<open>
  \<open>[8 - parseInt(notation[i + 1]), notation.charCodeAt(i) - 97]\<close> for a file letter
  and a rank digit.
\<close>

definition parseSquare :: "string \<Rightarrow> nat \<Rightarrow> square" where
  "parseSquare n i = (8 - (of_char (n ! (i + 1)) - 48), of_char (n ! i) - 97)"

text \<open>
  \<open>Math.random()\<close> is read from \<open>random\<close>: the first call of an invocation returns
  \<open>random 0\<close>, the second \<open>random 1\<close>.
\<close>

definition historyKey :: "game \<Rightarrow> string" where
  "historyKey g =
     joinComma (map (\<lambda>m. squareName (fst (mvFrom m)) (snd (mvFrom m)) @
                          squareName (fst (mvTo m)) (snd (mvTo m))) (moveHistory g))"

definition getOpeningBookMove :: "ai \<Rightarrow> (nat \<Rightarrow> real) \<Rightarrow> game \<Rightarrow> move option" where
  "getOpeningBookMove a random g =
     (case map_of (openingBook a) (historyKey g) of
        None \<Rightarrow> None
      | Some bookMoves \<Rightarrow>
          if bookMoves \<noteq> [] then
            (let moveNotation = bookMoves ! nat \<lfloor>random 0 * real (length bookMoves)\<rfloor>;
                 from = parseSquare moveNotation 0;
                 to = parseSquare moveNotation 2
             in Some \<lparr>mFrom = from, mTo = to,
                      mPiece = map_option ptype (getPieceAt g (fst from) (snd from)),
                      mCaptured = None, mScore = 0\<rparr>)
          else None)"

definition getBestMove ::
  "ai \<Rightarrow> (game \<Rightarrow> int) \<Rightarrow> (nat \<Rightarrow> real) \<Rightarrow> (nat \<Rightarrow> int) \<Rightarrow> game \<Rightarrow> move option \<times> ai" where
  "getBestMove a terms random clock g =
     (let a1 = a\<lparr>startTime := clock 0, moveCount := moveCount a + 1,
                 search := (search a)\<lparr>nodesSearched := 0\<rparr>\<rparr>
      in case (if useOpeningBook a1 \<and> moveCount a1 \<le> 10
               then getOpeningBookMove a1 random g else None) of
           Some bookMove \<Rightarrow> (Some bookMove, a1)
         | None \<Rightarrow>
             if moveRandomness a1 > 0 \<and> random 0 < moveRandomness a1 \<and>
                getAllPossibleMoves g \<noteq> []
             then (let moves = getAllPossibleMoves g in
                   (Some (moves ! nat \<lfloor>random 1 * real (min (length moves) 3)\<rfloor>), a1))
             else
               (let s1 = (if length (transpositionTable (search a1)) > 100000
                          then (search a1)\<lparr>transpositionTable := []\<rparr> else search a1)
                in case deepen a1 terms clock g 1 s1 1 None NegInf of
                     (bestMove, s2) \<Rightarrow> (bestMove, a1\<lparr>search := s2\<rparr>)))"

subsection \<open>Full minimax, as the specification describes it\<close>

text \<open>
  Written from the specification's words, for comparison with \<open>alphaBeta\<close>: minimax
  without pruning, without tables and without move ordering, over the same move
  generator (the moves of \<open>getAllPossibleMoves\<close> that \<open>makeMove\<close> accepts on the clone)
  and the same leaf evaluation (the stand-pat value and the capture moves, down to
  the same depth as \<open>quiescenceSearch\<close>). Scores are from the view of the side to
  move, as in the code.
\<close>

definition successors :: "game \<Rightarrow> move list \<Rightarrow> game list" where
  "successors g ms = map snd (filter fst (map (tryMove g) ms))"

fun quiescenceMinimax :: "(game \<Rightarrow> int) \<Rightarrow> nat \<Rightarrow> game \<Rightarrow> score" where
  "quiescenceMinimax terms 0 g = Fin (evaluatePositionAdvanced terms g)"
| "quiescenceMinimax terms (Suc k) g =
     fold max (map (\<lambda>c. sneg (quiescenceMinimax terms k c)) (successors g (getCaptureMoves g)))
          (Fin (evaluatePositionAdvanced terms g))"

fun minimax :: "ai \<Rightarrow> (game \<Rightarrow> int) \<Rightarrow> nat \<Rightarrow> game \<Rightarrow> score" where
  "minimax cfg terms 0 g = quiescenceMinimax terms 5 g"
| "minimax cfg terms (Suc d) g =
     (if gameState g \<noteq> Playing then quiescenceMinimax terms 5 g
      else if getAllPossibleMoves g = [] then
        (if isInCheck g (currentPlayer g)
         then Fin (- 30000 + (int (maxDepth cfg) - int (Suc d))) else Fin 0)
      else fold max (map (\<lambda>c. sneg (minimax cfg terms d c))
                         (successors g (getAllPossibleMoves g))) NegInf)"

section \<open>Positions used below\<close>

text \<open>A board without pieces; the positions below put pieces on it, as the tests do.\<close>

definition emptyGame :: game where
  "emptyGame =
     \<lparr>board = (\<lambda>sq. None), currentPlayer = WHITE, gameState = Playing,
      moveHistory = [], capturedPieces = (\<lambda>c. []), lastMove = None,
      kingPositions = (\<lambda>c. if c = WHITE then (7, 4) else (0, 4)),
      enPassantTarget = None, halfMoveClock = 0, fullMoveNumber = 1\<rparr>"

text \<open>
  White: king e1 and rook h1, neither has moved. Black: king e8 and a pawn on h2,
  which attacks g1. White is to move.
\<close>

definition castlePos :: game where
  "castlePos = emptyGame\<lparr>board := (\<lambda>sq. None)
       ((7, 4) := Some (newPiece KING WHITE 7 4),
        (7, 7) := Some (newPiece ROOK WHITE 7 7),
        (6, 7) := Some ((newPiece PAWN BLACK 6 7)\<lparr>hasMoved := True\<rparr>),
        (0, 4) := Some (newPiece KING BLACK 0 4)),
      fullMoveNumber := 30\<rparr>"

definition afterCastle :: game where
  "afterCastle = snd (makeMove castlePos 7 4 7 6 QUEEN)"

definition afterCapture :: game where
  "afterCapture = snd (makeMove afterCastle 6 7 7 6 QUEEN)"

text \<open>
  White: king g6, rook a1. Black: king h8. White is to move and 99 half-moves have
  passed without a capture or a pawn move; Ra1-a8 is mate.
\<close>

definition matePos :: game where
  "matePos = emptyGame\<lparr>board := (\<lambda>sq. None)
       ((2, 6) := Some ((newPiece KING WHITE 2 6)\<lparr>hasMoved := True\<rparr>),
        (7, 0) := Some (newPiece ROOK WHITE 7 0),
        (0, 7) := Some ((newPiece KING BLACK 0 7)\<lparr>hasMoved := True\<rparr>)),
      kingPositions := (\<lambda>c. if c = WHITE then (2, 6) else (0, 7)),
      halfMoveClock := 99, fullMoveNumber := 80\<rparr>"

text \<open>White: king e1. Black: king h8 and a rook on d8, which guards the d-file.\<close>

definition rookPos :: game where
  "rookPos = emptyGame\<lparr>board := (\<lambda>sq. None)
       ((7, 4) := Some ((newPiece KING WHITE 7 4)\<lparr>hasMoved := True\<rparr>),
        (0, 3) := Some ((newPiece ROOK BLACK 0 3)\<lparr>hasMoved := True\<rparr>),
        (0, 7) := Some ((newPiece KING BLACK 0 7)\<lparr>hasMoved := True\<rparr>)),
      kingPositions := (\<lambda>c. if c = WHITE then (7, 4) else (0, 7)),
      fullMoveNumber := 40\<rparr>"

section \<open>The legality test leaves the state as it found it\<close>

lemma getPieceAt_Some: "getPieceAt g r c = Some p \<Longrightarrow> board g (r, c) = Some p"
  by (simp add: getPieceAt_def split: if_splits)

lemma isLegalMove_state: "snd (isLegalMove g fromRow fromCol toRow toCol) = g"
proof (cases "getPieceAt g fromRow fromCol")
  case None
  then show ?thesis by (simp add: isLegalMove_def)
next
  case (Some piece)
  then have at: "board g (fromRow, fromCol) = Some piece" by (rule getPieceAt_Some)
  show ?thesis
    using Some at
    by (auto simp add: isLegalMove_def Let_def fun_eq_iff split: option.splits
             intro!: game.equality)
qed

lemma legalFilter_state: "snd (legalFilter g p ms) = g"
  by (induction ms) (simp_all add: split_beta isLegalMove_state)

lemma getLegalMoves_state: "snd (getLegalMoves g po) = g"
  by (cases po) (simp_all add: getLegalMoves_def legalFilter_state)

lemma hasLegalMovesFrom_state: "snd (hasLegalMovesFrom g c sqs) = g"
  by (induction sqs) (simp_all add: split_beta getLegalMoves_state split: option.splits)

lemma hasLegalMoves_state: "snd (hasLegalMoves g c) = g"
  by (simp add: hasLegalMoves_def hasLegalMovesFrom_state)

lemma legalFilter_filter:
  "fst (legalFilter g p ms) =
     filter (\<lambda>m. fst (isLegalMove g (row p) (col p) (fst m) (snd m))) ms"
  by (induction ms) (simp_all add: split_beta isLegalMove_state)

lemma getLegalMoves_filter:
  "fst (getLegalMoves g (Some p)) =
     filter (\<lambda>m. fst (isLegalMove g (row p) (col p) (fst m) (snd m)))
            (getPossibleMoves (board g) p (moveContext g p))"
  by (simp add: getLegalMoves_def legalFilter_filter)

section \<open>What \<open>updateGameState\<close> and \<open>makeMove\<close> change\<close>

definition classify :: "game \<Rightarrow> status" where
  "classify g =
     (if isInCheck g (currentPlayer g) \<and> \<not> fst (hasLegalMoves g (currentPlayer g)) then Checkmate
      else if \<not> isInCheck g (currentPlayer g) \<and> \<not> fst (hasLegalMoves g (currentPlayer g))
           then Stalemate
      else if isInCheck g (currentPlayer g) then Check
      else Playing)"

lemma getPieceAt_gameState: "getPieceAt (g\<lparr>gameState := s\<rparr>) r c = getPieceAt g r c"
  by (simp add: getPieceAt_def)

lemma getPieces_gameState: "getPieces (g\<lparr>gameState := s\<rparr>) c = getPieces g c"
  by (simp add: getPieces_def getPieceAt_gameState)

lemma isInsufficientMaterial_gameState:
  "isInsufficientMaterial (g\<lparr>gameState := s\<rparr>) = isInsufficientMaterial g"
  by (simp add: isInsufficientMaterial_def getPieces_gameState)

lemma updateGameState_eq:
  "updateGameState g =
     g\<lparr>gameState := (if halfMoveClock g \<ge> 100 \<or> isInsufficientMaterial g
                      then Draw else classify g)\<rparr>"
  by (simp add: updateGameState_def classify_def Let_def split_beta hasLegalMoves_state
                isInsufficientMaterial_gameState)

lemma updateGameState_fields:
  "board (updateGameState g) = board g"
  "currentPlayer (updateGameState g) = currentPlayer g"
  "kingPositions (updateGameState g) = kingPositions g"
  "enPassantTarget (updateGameState g) = enPassantTarget g"
  "halfMoveClock (updateGameState g) = halfMoveClock g"
  "fullMoveNumber (updateGameState g) = fullMoveNumber g"
  "moveHistory (updateGameState g) = moveHistory g"
  "capturedPieces (updateGameState g) = capturedPieces g"
  "lastMove (updateGameState g) = lastMove g"
  by (simp_all add: updateGameState_eq)

lemma updateGameState_draw:
  "halfMoveClock g \<ge> 100 \<Longrightarrow> gameState (updateGameState g) = Draw"
  by (simp add: updateGameState_eq)

lemma isSquareUnderAttack_gameState:
  "isSquareUnderAttack (g\<lparr>gameState := s\<rparr>) r c a = isSquareUnderAttack g r c a"
  by (simp add: isSquareUnderAttack_def attackContext_def cong: option.case_cong)

lemma isInCheck_gameState: "isInCheck (g\<lparr>gameState := s\<rparr>) c = isInCheck g c"
  by (simp add: isInCheck_def isSquareUnderAttack_gameState)

lemma isInCheck_updateGameState: "isInCheck (updateGameState g) c = isInCheck g c"
  by (simp add: updateGameState_eq isInCheck_gameState)

lemma getPieces_updateGameState: "getPieces (updateGameState g) c = getPieces g c"
  by (simp add: updateGameState_eq getPieces_gameState)

lemma makeMove_success:
  assumes at: "getPieceAt g fromRow fromCol = Some p"
    and legal: "fst (isLegalMove g fromRow fromCol toRow toCol)"
  shows "makeMove g fromRow fromCol toRow toCol promotionPiece =
           (True, updateGameState (applyMove g p fromRow fromCol toRow toCol promotionPiece))"
  using legal by (simp add: makeMove_def at split_beta isLegalMove_state)

lemma makeMove_legal:
  assumes "fst (makeMove g fromRow fromCol toRow toCol promotionPiece)"
  shows "fst (isLegalMove g fromRow fromCol toRow toCol)"
proof (cases "getPieceAt g fromRow fromCol")
  case None
  with assms show ?thesis by (simp add: makeMove_def)
next
  case (Some p)
  with assms show ?thesis
    by (cases "fst (isLegalMove g fromRow fromCol toRow toCol)")
       (simp_all add: makeMove_def split_beta)
qed

lemma applyMove_enPassantTarget:
  "enPassantTarget (applyMove g p fromRow fromCol toRow toCol promotionPiece) =
     (if ptype (promotePiece (moveTo p toRow toCol) toRow promotionPiece) = PAWN
         \<and> \<bar>toRow - fromRow\<bar> = 2
      then Some (fromRow + (toRow - fromRow) div 2, fromCol) else None)"
  by (simp add: applyMove_def switchPlayers_def recordMove_def updateEnPassantTarget_def
                Let_def split_beta)

section \<open>Well-formed states\<close>

lemma in_idx8: "0 \<le> r \<Longrightarrow> r < 8 \<Longrightarrow> r \<in> set idx8"
  unfolding idx8_def by simp presburger

lemma set_squares: "set squares = set idx8 \<times> set idx8"
  unfolding squares_def by auto

lemma in_squares: "inBoard r c \<Longrightarrow> (r, c) \<in> set squares"
  by (simp add: set_squares inBoard_def in_idx8)

lemma wf_coords:
  assumes "wf_game g" "getPieceAt g r c = Some p"
  shows "row p = r \<and> col p = c"
proof -
  from assms(2) have ib: "inBoard r c" and at: "board g (r, c) = Some p"
    by (auto simp: getPieceAt_def inBoard_def split: if_splits)
  from assms(1)
  have "\<forall>sq\<in>set squares. case board g sq of None \<Rightarrow> True | Some p \<Rightarrow> (row p, col p) = sq"
    by (simp add: wf_game_def list_all_iff)
  with in_squares [OF ib] at show ?thesis by fastforce
qed

section \<open>Pawn moves\<close>

lemma pawnCapture_cases:
  "pawnCapture b p nr k = [] \<or> pawnCapture b p nr k = [(nr, col p + k)]"
  by (simp add: pawnCapture_def Let_def split: option.split)

lemma pawnCapture_row: "(tr, tc) \<in> set (pawnCapture b p nr k) \<Longrightarrow> tr = nr"
  using pawnCapture_cases [of b p nr k] by auto

text \<open>A pawn move over two rows is the double move from the starting row.\<close>

lemma pawn_double_rows:
  assumes "(tr, tc) \<in> set (getPawnMoves b p ep)" "\<bar>tr - row p\<bar> = 2"
  shows "tr = 3 \<or> tr = 4"
proof -
  have d: "tr \<noteq> row p + 1" "tr \<noteq> row p - 1" using assms(2) by linarith+
  define dir :: int where "dir = (if color p = WHITE then - 1 else 1)"
  define start :: int where "start = (if color p = WHITE then 6 else 1)"
  have tr1: "tr \<noteq> row p + dir" using d by (simp add: dir_def)
  have nocap: "(tr, tc) \<notin> set (pawnCapture b p (row p + dir) k)" for k
    using pawnCapture_row [of tr tc b p "row p + dir" k] tr1 by blast
  have "(tr, tc) \<in> set (if row p + dir \<ge> 0 \<and> row p + dir < 8 \<and> b (row p + dir, col p) = None then
               (row p + dir, col p) #
               (if row p = start \<and> b (row p + dir + dir, col p) = None
                then [(row p + dir + dir, col p)] else [])
             else [])"
    using assms(1) nocap tr1
    unfolding getPawnMoves_def Let_def dir_def [symmetric] start_def [symmetric]
    by auto
  then have "tr = row p + dir + dir \<and> row p = start"
    using tr1 by (simp split: if_split_asm)
  then show ?thesis by (auto simp: dir_def start_def split: if_split_asm)
qed

lemma isLegalMove_possible:
  assumes "fst (isLegalMove g fr fc tr tc)" "getPieceAt g fr fc = Some p"
  shows "(tr, tc) \<in> set (getPossibleMoves (board g) p (moveContext g p)) \<and>
         color p = currentPlayer g"
proof -
  have "color p = currentPlayer g"
    using assms by (cases "color p = currentPlayer g") (simp_all add: isLegalMove_def)
  moreover have "list_ex (\<lambda>m. m = (tr, tc)) (getPossibleMoves (board g) p (moveContext g p))"
    using assms calculation
    by (cases "list_ex (\<lambda>m. m = (tr, tc)) (getPossibleMoves (board g) p (moveContext g p))")
       (simp_all add: isLegalMove_def)
  ultimately show ?thesis by (auto simp: list_ex_iff)
qed

lemma legalFilter_other_color:
  assumes "getPieceAt g (row p) (col p) = Some p" "color p \<noteq> currentPlayer g"
  shows "fst (legalFilter g p ms) = []"
proof (induction ms)
  case Nil
  then show ?case by simp
next
  case (Cons m ms)
  have "isLegalMove g (row p) (col p) (fst m) (snd m) = (False, g)"
    using assms by (simp add: isLegalMove_def)
  with Cons show ?case by simp
qed

section \<open>Evaluating the engine on the positions\<close>

lemmas movedefs = getPossibleMoves_def getPawnMoves_def pawnCapture_def getRookMoves_def
  getBishopMoves_def getQueenMoves_def getKnightMoves_def getKingMoves_def stepTo_def
  attackContext_def

lemmas evaldefs = isInCheck_def isSquareUnderAttack_def squares_def idx8_def movedefs
  newPiece_def opposite_def Let_def slide.simps getPieceAt_def canCastle_def isKind_def
  moveContext_def

lemmas applydefs = applyMove_def captureEnPassant_def handleCaptures_def movePiece_def
  updateKingPosition_def promotePiece_def handlePromotion_def castleIfKing_def
  handleCastling_def updateEnPassantTarget_def recordMove_def switchPlayers_def moveTo_def

lemmas newGamedefs = newGame_def initializeBoard_def pieceOrder_def

lemma newGame_wf: "wf_game newGame"
  by (simp add: wf_game_def newGamedefs squares_def idx8_def newPiece_def)

lemma castlePos_wf: "wf_game castlePos"
  by (simp add: wf_game_def castlePos_def emptyGame_def squares_def idx8_def newPiece_def)

lemma matePos_wf: "wf_game matePos"
  by (simp add: wf_game_def matePos_def emptyGame_def squares_def idx8_def newPiece_def)

lemma rookPos_wf: "wf_game rookPos"
  by (simp add: wf_game_def rookPos_def emptyGame_def squares_def idx8_def newPiece_def)

lemma castlePos_at: "getPieceAt castlePos 7 4 = Some (newPiece KING WHITE 7 4)"
  by (simp add: castlePos_def emptyGame_def getPieceAt_def)

lemma castlePos_canCastle: "canCastle castlePos WHITE True"
  by (simp add: castlePos_def emptyGame_def evaldefs)

lemma castlePos_possible:
  "(7, 6) \<in> set (getPossibleMoves (board castlePos) (newPiece KING WHITE 7 4)
                    (moveContext castlePos (newPiece KING WHITE 7 4)))"
  by (simp add: castlePos_def emptyGame_def evaldefs)

lemma castlePos_legal: "fst (isLegalMove castlePos 7 4 7 6)"
  by (simp add: isLegalMove_def castlePos_def emptyGame_def evaldefs)

lemma castlePos_after: "isInCheck (snd (makeMove castlePos 7 4 7 6 QUEEN)) WHITE"
  unfolding makeMove_success [OF castlePos_at castlePos_legal] snd_conv isInCheck_updateGameState
  by (simp add: castlePos_def emptyGame_def applydefs evaldefs)

lemma matePos_at: "getPieceAt matePos 7 0 = Some (newPiece ROOK WHITE 7 0)"
  by (simp add: matePos_def emptyGame_def getPieceAt_def)

lemma matePos_legal: "fst (isLegalMove matePos 7 0 0 0)"
  by (simp add: isLegalMove_def matePos_def emptyGame_def evaldefs)

lemma matePos_clock:
  "halfMoveClock (applyMove matePos (newPiece ROOK WHITE 7 0) 7 0 0 0 QUEEN) = 100"
  by (simp add: matePos_def emptyGame_def applydefs evaldefs)

lemma matePos_status: "gameState (snd (makeMove matePos 7 0 0 0 QUEEN)) = Draw"
  unfolding makeMove_success [OF matePos_at matePos_legal] snd_conv
  by (rule updateGameState_draw) (simp add: matePos_clock)

lemma matePos_mated:
  "isInCheck (snd (makeMove matePos 7 0 0 0 QUEEN)) BLACK \<and>
   \<not> fst (hasLegalMoves (snd (makeMove matePos 7 0 0 0 QUEEN)) BLACK) \<and>
   currentPlayer (snd (makeMove matePos 7 0 0 0 QUEEN)) = BLACK"
proof -
  define X where "X = applyMove matePos (newPiece ROOK WHITE 7 0) 7 0 0 0 QUEEN"
  obtain s where s: "updateGameState X = X\<lparr>gameState := s\<rparr>"
    using updateGameState_eq by blast
  have post: "snd (makeMove matePos 7 0 0 0 QUEEN) = X\<lparr>gameState := s\<rparr>"
    unfolding makeMove_success [OF matePos_at matePos_legal] snd_conv X_def [symmetric]
    by (rule s)
  have 1: "isInCheck (X\<lparr>gameState := s\<rparr>) BLACK"
    unfolding X_def by (simp add: matePos_def emptyGame_def applydefs evaldefs)
  have 2: "\<not> fst (hasLegalMoves (X\<lparr>gameState := s\<rparr>) BLACK)"
    unfolding X_def hasLegalMoves_def
    by (simp add: matePos_def emptyGame_def applydefs evaldefs getLegalMoves_def isLegalMove_def)
  have 3: "currentPlayer (X\<lparr>gameState := s\<rparr>) = BLACK"
    unfolding X_def by (simp add: matePos_def emptyGame_def applydefs evaldefs)
  show ?thesis unfolding post using 1 2 3 by simp
qed

lemma rookPos_illegal: "\<not> fst (isLegalMove rookPos 7 4 7 3)"
  by (simp add: isLegalMove_def rookPos_def emptyGame_def evaldefs)

lemma rookPos_possible:
  "(7, 3) \<in> set (getPossibleMoves (board rookPos) ((newPiece KING WHITE 7 4)\<lparr>hasMoved := True\<rparr>)
                    (moveContext rookPos ((newPiece KING WHITE 7 4)\<lparr>hasMoved := True\<rparr>)))"
  by (simp add: rookPos_def emptyGame_def evaldefs)

lemma newGame_e4_legal: "fst (isLegalMove newGame 6 4 4 4)"
  by (simp add: isLegalMove_def newGamedefs evaldefs)

lemma newGame_e3_legal: "fst (isLegalMove newGame 6 4 5 4)"
  by (simp add: isLegalMove_def newGamedefs evaldefs)

lemma newGame_e2: "getPieceAt newGame 6 4 = Some (newPiece PAWN WHITE 6 4)"
  by (simp add: newGamedefs getPieceAt_def)

lemma newGame_e7: "getPieceAt newGame 1 4 = Some (newPiece PAWN BLACK 1 4)"
  by (simp add: newGamedefs getPieceAt_def)

lemma newGame_e7_possible:
  "getPossibleMoves (board newGame) (newPiece PAWN BLACK 1 4)
     (moveContext newGame (newPiece PAWN BLACK 1 4)) = [(2, 4), (3, 4)]"
  by (simp add: newGamedefs evaldefs)

section \<open>The claims about the rules engine\<close>

text \<open>
  Claim C1. Every square returned by \<open>getLegalMoves\<close> should be a move after which the
  mover's king is not attacked, castling included. The code accepts castling once
  \<open>canCastle\<close> holds, and \<open>canCastle\<close> asks \<open>isSquareUnderAttack\<close> about the empty
  squares f1 and g1; a pawn's diagonal capture is generated only onto an occupied
  square, so a pawn that attacks g1 goes unseen. In \<open>castlePos\<close> the position is
  well formed, \<open>getLegalMoves\<close> of the white king contains g1, \<open>makeMove\<close> accepts the
  move, and in the state it leaves White's king is in check.
\<close>

theorem castling_into_pawn_check:
  "wf_game castlePos \<and>
   (7, 6) \<in> set (fst (getLegalMoves castlePos (getPieceAt castlePos 7 4))) \<and>
   fst (makeMove castlePos 7 4 7 6 QUEEN) \<and>
   isInCheck (snd (makeMove castlePos 7 4 7 6 QUEEN)) WHITE"
proof -
  have "(7, 6) \<in> set (fst (getLegalMoves castlePos (getPieceAt castlePos 7 4)))"
    using castlePos_possible castlePos_legal
    by (simp add: castlePos_at getLegalMoves_filter newPiece_def)
  moreover have "fst (makeMove castlePos 7 4 7 6 QUEEN)"
    by (simp add: makeMove_success [OF castlePos_at castlePos_legal])
  ultimately show ?thesis
    using castlePos_wf castlePos_after by simp
qed

text \<open>
  Claim C2. When there is no piece on the origin square or the move is not legal,
  \<open>makeMove\<close> returns false and leaves the whole state as it was; and the legality
  test itself, which makes the move on the live state and takes it back, returns the
  state it was given.
\<close>

theorem makeMove_rejected_unchanged:
  "snd (isLegalMove g fromRow fromCol toRow toCol) = g \<and>
   (getPieceAt g fromRow fromCol = None \<or> \<not> fst (isLegalMove g fromRow fromCol toRow toCol)
      \<longrightarrow> makeMove g fromRow fromCol toRow toCol promotionPiece = (False, g))"
proof -
  have "makeMove g fromRow fromCol toRow toCol promotionPiece = (False, g)"
    if "getPieceAt g fromRow fromCol = None"
    using that by (simp add: makeMove_def)
  moreover have "makeMove g fromRow fromCol toRow toCol promotionPiece = (False, g)"
    if "\<not> fst (isLegalMove g fromRow fromCol toRow toCol)"
    using that
    by (cases "getPieceAt g fromRow fromCol")
       (simp_all add: makeMove_def split_beta isLegalMove_state)
  ultimately show ?thesis by (auto simp: isLegalMove_state)
qed

text \<open>
  In \<open>rookPos\<close> the king's step to d1 is a possible move, so the legality test makes
  it, finds the king attacked by the rook, and takes it back.
\<close>

theorem makeMove_rejected_unchanged_witness:
  "wf_game rookPos \<and>
   (7, 3) \<in> set (getPossibleMoves (board rookPos) ((newPiece KING WHITE 7 4)\<lparr>hasMoved := True\<rparr>)
                    (moveContext rookPos ((newPiece KING WHITE 7 4)\<lparr>hasMoved := True\<rparr>))) \<and>
   \<not> fst (isLegalMove rookPos 7 4 7 3) \<and>
   snd (isLegalMove rookPos 7 4 7 3) = rookPos \<and>
   makeMove rookPos 7 4 7 3 QUEEN = (False, rookPos)"
  using makeMove_rejected_unchanged [of rookPos 7 4 7 3 QUEEN]
    rookPos_illegal rookPos_possible rookPos_wf
  by simp

text \<open>
  Claim C3. After a successful \<open>makeMove\<close> the status should be CHECKMATE whenever
  the player to move is in check without a legal move, the draw conditions coming
  after it. In the code the draw test runs last and overwrites the classification.
  From \<open>matePos\<close> the move Ra1-a8 is accepted; in the state it leaves Black is to
  move, is in check and has no legal move, the half-move clock has reached 100, and
  the status is DRAW.
\<close>

theorem checkmate_overwritten_by_draw:
  "wf_game matePos \<and>
   fst (makeMove matePos 7 0 0 0 QUEEN) \<and>
   currentPlayer (snd (makeMove matePos 7 0 0 0 QUEEN)) = BLACK \<and>
   isInCheck (snd (makeMove matePos 7 0 0 0 QUEEN)) BLACK \<and>
   \<not> fst (hasLegalMoves (snd (makeMove matePos 7 0 0 0 QUEEN)) BLACK) \<and>
   halfMoveClock (snd (makeMove matePos 7 0 0 0 QUEEN)) = 100 \<and>
   gameState (snd (makeMove matePos 7 0 0 0 QUEEN)) = Draw"
proof -
  have "fst (makeMove matePos 7 0 0 0 QUEEN)"
    by (simp add: makeMove_success [OF matePos_at matePos_legal])
  moreover have "halfMoveClock (snd (makeMove matePos 7 0 0 0 QUEEN)) = 100"
    by (simp add: makeMove_success [OF matePos_at matePos_legal] updateGameState_fields
                  matePos_clock)
  ultimately show ?thesis
    using matePos_wf matePos_mated matePos_status by simp
qed

text \<open>
  Claim C8. After a successful \<open>makeMove\<close> from a well-formed state, the en-passant
  target is the square the pawn passed over exactly when the piece moved was a pawn
  and the move covered two rows, and it is null after every other move.
\<close>

theorem enPassantTarget_after_move:
  assumes wf: "wf_game g"
    and at: "getPieceAt g fromRow fromCol = Some p"
    and ok: "fst (makeMove g fromRow fromCol toRow toCol promotionPiece)"
  shows "enPassantTarget (snd (makeMove g fromRow fromCol toRow toCol promotionPiece)) =
           (if ptype p = PAWN \<and> \<bar>toRow - fromRow\<bar> = 2
            then Some ((fromRow + toRow) div 2, fromCol) else None)"
proof -
  have legal: "fst (isLegalMove g fromRow fromCol toRow toCol)"
    using ok by (rule makeMove_legal)
  have rp: "row p = fromRow" using wf_coords [OF wf at] by simp
  have mid: "fromRow + (toRow - fromRow) div 2 = (fromRow + toRow) div 2"
    if "\<bar>toRow - fromRow\<bar> = 2"
    using that by presburger
  have nopromo: "toRow \<noteq> 0 \<and> toRow \<noteq> 7" if "ptype p = PAWN" "\<bar>toRow - fromRow\<bar> = 2"
  proof -
    from isLegalMove_possible [OF legal at] that(1)
    have "(toRow, toCol) \<in> set (getPawnMoves (board g) p (enPassantTarget g))"
      by (simp add: getPossibleMoves_def moveContext_def)
    from pawn_double_rows [OF this] that(2) rp show ?thesis by auto
  qed
  have ep: "enPassantTarget (snd (makeMove g fromRow fromCol toRow toCol promotionPiece)) =
           (if ptype (promotePiece (moveTo p toRow toCol) toRow promotionPiece) = PAWN
               \<and> \<bar>toRow - fromRow\<bar> = 2
            then Some (fromRow + (toRow - fromRow) div 2, fromCol) else None)"
    by (simp add: makeMove_success [OF at legal] updateGameState_fields
                  applyMove_enPassantTarget)
  show ?thesis
  proof (cases "ptype p = PAWN \<and> \<bar>toRow - fromRow\<bar> = 2")
    case True
    with nopromo mid show ?thesis
      by (simp add: ep promotePiece_def moveTo_def)
  next
    case False
    then show ?thesis
      by (auto simp add: ep promotePiece_def moveTo_def)
  qed
qed

text \<open>
  From the initial position: after e2-e4 the target is e3, that is (5, 4); after
  e2-e3 it is null.
\<close>

theorem enPassantTarget_after_move_witness:
  "wf_game newGame \<and>
   fst (makeMove newGame 6 4 4 4 QUEEN) \<and>
   enPassantTarget (snd (makeMove newGame 6 4 4 4 QUEEN)) = Some (5, 4) \<and>
   fst (makeMove newGame 6 4 5 4 QUEEN) \<and>
   enPassantTarget (snd (makeMove newGame 6 4 5 4 QUEEN)) = None"
proof -
  have ok4: "fst (makeMove newGame 6 4 4 4 QUEEN)"
    by (simp add: makeMove_success [OF newGame_e2 newGame_e4_legal])
  have ok3: "fst (makeMove newGame 6 4 5 4 QUEEN)"
    by (simp add: makeMove_success [OF newGame_e2 newGame_e3_legal])
  show ?thesis
    using enPassantTarget_after_move [OF newGame_wf newGame_e2 ok4]
      enPassantTarget_after_move [OF newGame_wf newGame_e2 ok3] ok4 ok3 newGame_wf
    by (simp add: newPiece_def)
qed

text \<open>
  Claim C9. After every successful \<open>makeMove\<close> the cached king square of each
  colour should be the square of that colour's king. From \<open>castlePos\<close> two moves are
  accepted: White castles into the pawn's attack (the defect of claim C1), and the
  pawn then takes on g1 and promotes. In the state that leaves, the cache still
  says g1 for White, g1 holds a black queen, and White has no king on the board.
\<close>

theorem king_cache_after_king_capture:
  "wf_game castlePos \<and>
   fst (makeMove castlePos 7 4 7 6 QUEEN) \<and> fst (makeMove afterCastle 6 7 7 6 QUEEN) \<and>
   kingPositions afterCapture WHITE = (7, 6) \<and>
   map_option (\<lambda>p. (ptype p, color p)) (board afterCapture (7, 6)) = Some (QUEEN, BLACK) \<and>
   filter (\<lambda>p. ptype p = KING) (getPieces afterCapture WHITE) = []"
proof -
  define X where "X = applyMove castlePos (newPiece KING WHITE 7 4) 7 4 7 6 QUEEN"
  obtain s where s: "updateGameState X = X\<lparr>gameState := s\<rparr>"
    using updateGameState_eq by blast
  have g1: "afterCastle = X\<lparr>gameState := s\<rparr>"
    unfolding afterCastle_def makeMove_success [OF castlePos_at castlePos_legal] snd_conv
      X_def [symmetric] by (rule s)
  have ok1: "fst (makeMove castlePos 7 4 7 6 QUEEN)"
    by (simp add: makeMove_success [OF castlePos_at castlePos_legal])
  have at2: "getPieceAt (X\<lparr>gameState := s\<rparr>) 6 7 =
               Some ((newPiece PAWN BLACK 6 7)\<lparr>hasMoved := True\<rparr>)"
    unfolding X_def by (simp add: castlePos_def emptyGame_def applydefs evaldefs)
  have legal2: "fst (isLegalMove (X\<lparr>gameState := s\<rparr>) 6 7 7 6)"
    unfolding X_def by (simp add: isLegalMove_def castlePos_def emptyGame_def applydefs evaldefs)
  define Y where "Y = applyMove (X\<lparr>gameState := s\<rparr>)
                        ((newPiece PAWN BLACK 6 7)\<lparr>hasMoved := True\<rparr>) 6 7 7 6 QUEEN"
  have g2: "afterCapture = updateGameState Y"
    unfolding afterCapture_def g1 makeMove_success [OF at2 legal2] snd_conv Y_def ..
  have ok2: "fst (makeMove afterCastle 6 7 7 6 QUEEN)"
    unfolding g1 by (simp add: makeMove_success [OF at2 legal2])
  have k: "kingPositions Y WHITE = (7, 6)"
    unfolding Y_def X_def by (simp add: castlePos_def emptyGame_def applydefs evaldefs)
  have b: "map_option (\<lambda>p. (ptype p, color p)) (board Y (7, 6)) = Some (QUEEN, BLACK)"
    unfolding Y_def X_def by (simp add: castlePos_def emptyGame_def applydefs evaldefs)
  have p: "filter (\<lambda>p. ptype p = KING) (getPieces Y WHITE) = []"
    unfolding Y_def X_def
    by (simp add: getPieces_def castlePos_def emptyGame_def applydefs evaldefs)
  show ?thesis
    using ok1 ok2 k b p castlePos_wf
    by (simp add: g2 updateGameState_fields getPieces_updateGameState)
qed

text \<open>
  Claim C10. In a well-formed state, \<open>getLegalMoves\<close> of a piece on the board whose
  colour is not the player to move is empty, and so is \<open>getLegalMoves\<close> of null;
  the piece may well have possible moves.
\<close>

theorem getLegalMoves_other_side_empty:
  assumes "wf_game g" "getPieceAt g r c = Some p" "color p \<noteq> currentPlayer g"
  shows "fst (getLegalMoves g (Some p)) = [] \<and> fst (getLegalMoves g None) = []"
proof -
  from wf_coords [OF assms(1,2)] assms(2) have "getPieceAt g (row p) (col p) = Some p" by simp
  from legalFilter_other_color [OF this assms(3)] show ?thesis
    by (simp add: getLegalMoves_def)
qed

text \<open>
  In the initial position the black e-pawn has two possible moves and no legal one,
  White being to move.
\<close>

theorem getLegalMoves_other_side_empty_witness:
  "wf_game newGame \<and>
   getPieceAt newGame 1 4 = Some (newPiece PAWN BLACK 1 4) \<and>
   color (newPiece PAWN BLACK 1 4) \<noteq> currentPlayer newGame \<and>
   getPossibleMoves (board newGame) (newPiece PAWN BLACK 1 4)
     (moveContext newGame (newPiece PAWN BLACK 1 4)) = [(2, 4), (3, 4)] \<and>
   fst (getLegalMoves newGame (Some (newPiece PAWN BLACK 1 4))) = [] \<and>
   fst (getLegalMoves newGame None) = []"
proof -
  have c: "color (newPiece PAWN BLACK 1 4) \<noteq> currentPlayer newGame"
    by (simp add: newGame_def newPiece_def)
  show ?thesis
    using getLegalMoves_other_side_empty [OF newGame_wf newGame_e7 c]
      newGame_wf newGame_e7 c newGame_e7_possible
    by simp
qed

end
